theory Spec2Isabelle
  imports Complex_Main "HOL-Library.AList"
begin

section \<open>Data model of \<^verbatim>\<open>klipper/extras/toolchanger.py\<close>\<close>

text \<open>
  The module constants \<^verbatim>\<open>STATUS_*\<close> and \<^verbatim>\<open>INIT_*\<close> are enumerations.
\<close>

datatype status =
    STATUS_UNINITALIZED
  | STATUS_INITIALIZING
  | STATUS_READY
  | STATUS_CHANGING
  | STATUS_ERROR

datatype init_option = INIT_ON_HOME | INIT_MANUAL | INIT_FIRST_USE

text \<open>
  A template is a reference to a hook body owned by the scripting engine; the engine
  itself is a collaborator and enters every operation below as the parameter \<open>run\<close>.
\<close>

type_synonym template = string

text \<open>
  The fields of a tool object that the toolchanger reads. An offset that the
  configuration leaves out is \<^verbatim>\<open>None\<close>. Python floats are taken as reals.
\<close>

record tool =
  name :: string
  tool_number :: int
  gcode_x_offset :: "real option"
  gcode_y_offset :: "real option"
  gcode_z_offset :: "real option"
  pickup_gcode :: template
  dropoff_gcode :: template
  t_command_restore_axis :: string

text \<open>
  Every \<^verbatim>\<open>raise\<close> of the module, and the faults of the Python operations it uses
  (\<^verbatim>\<open>dict[key]\<close>, \<^verbatim>\<open>list.remove\<close>, arithmetic on \<^verbatim>\<open>None\<close>), as values.
  \<open>ScriptRunningError e\<close> is \<^verbatim>\<open>Exception("Script running error: %s" % (str(e)))\<close>,
  \<open>UnexpectedStatus n st msg\<close> is
  \<^verbatim>\<open>Exception("Unexpected status during %s, status = %s, message = %s, aborting")\<close>,
  \<open>ScriptFault\<close> is a fault that a hook body raises by itself.
\<close>

datatype error =
    DuplicateTools int
  | CannotInitializeWhileChanging
  | FailedToInitialize string string
  | CannotSelectTool status
  | ScriptRunningError error
  | UnexpectedStatus string status string
  | KeyError char
  | IndexError
  | TypeError
  | ValueError
  | ScriptFault string

text \<open>The texts handed to \<^verbatim>\<open>respond_info\<close>.\<close>

datatype info =
    AlreadySelected string
  | SelectedTool int string
  | ToolUnselected
  | Initialized string "string option"
  | NotSelectingDoingNothing

text \<open>
  The calls that the toolchanger makes on its collaborators, in the order it makes them:
  a fixed script text, the offset command assembled in \<^verbatim>\<open>_set_tool_gcode_offset\<close>
  (one entry per axis written into the command), the bed mesh adjustment, the restore
  move, a response to the caller (the argument of \<^verbatim>\<open>respond_info\<close>, which may be
  \<^verbatim>\<open>None\<close>), and the activation capability of a tool.
\<close>

datatype event =
    RunScript string
  | SET_GCODE_OFFSET "(char \<times> real) list"
  | BED_MESH_OFFSET real real
  | G0 "(char \<times> real) list"
  | RespondInfo "info option"
  | Activate string
  | Deactivate string

text \<open>
  The object state of \<^verbatim>\<open>Toolchanger\<close>, with what it reads from the printer:
  \<open>gcode_position\<close> is \<^verbatim>\<open>gcode_move.get_status()['gcode_position']\<close>, \<open>bed_mesh\<close> is the
  result of looking up the bed mesh object (\<open>None\<close>: a false value, \<open>Some b\<close>: an object
  whose \<^verbatim>\<open>get_mesh()\<close> is true exactly when \<open>b\<close>), \<open>emitted\<close> collects the calls made.
\<close>

record toolchanger =
  tc_name :: string
  initialize_on :: init_option
  initialize_gcode :: template
  before_change_gcode :: template
  after_change_gcode :: template
  status :: status
  active_tool :: "tool option"
  tools :: "int \<rightharpoonup> tool"
  tool_numbers :: "int list"
  tool_names :: "string list"
  error_message :: string
  gcode_position :: "real list"
  bed_mesh :: "bool option"
  emitted :: "event list"

text \<open>The \<^verbatim>\<open>extra_context\<close> dictionary of a tool change.\<close>

record extra_context =
  dropoff_tool :: "string option"
  pickup_tool :: "string option"
  restore_position :: "(char \<times> real) list"

text \<open>
  An operation either returns (\<open>Ok\<close>) or raises (\<open>Raise\<close>); in both cases the object
  keeps the mutations made so far.
\<close>

datatype outcome = Ok toolchanger | Raise error toolchanger

fun then_do :: "outcome \<Rightarrow> (toolchanger \<Rightarrow> outcome) \<Rightarrow> outcome" where
  "then_do (Ok s) f = f s"
| "then_do (Raise e s) f = Raise e s"

fun raised :: "outcome \<Rightarrow> error option" where
  "raised (Ok s) = None"
| "raised (Raise e s) = Some e"

fun state_of :: "outcome \<Rightarrow> toolchanger" where
  "state_of (Ok s) = s"
| "state_of (Raise e s) = s"

text \<open>
  The scripting engine: running a template with a context on the current object either
  completes or faults, and may have changed the object either way (a hook body can issue
  the commands of this module).
\<close>

type_synonym script_runner =
  "template \<Rightarrow> extra_context option \<Rightarrow> toolchanger \<Rightarrow> error option \<times> toolchanger"

definition emit :: "event \<Rightarrow> toolchanger \<Rightarrow> toolchanger" where
  "emit ev s = s\<lparr>emitted := emitted s @ [ev]\<rparr>"

definition run_script_from_command :: "string \<Rightarrow> toolchanger \<Rightarrow> toolchanger" where
  "run_script_from_command script s = emit (RunScript script) s"

definition respond_info :: "info option \<Rightarrow> toolchanger \<Rightarrow> toolchanger" where
  "respond_info msg s = emit (RespondInfo msg) s"

section \<open>Tool registry\<close>

text \<open>\<^verbatim>\<open>bisect.bisect_left(a, x)\<close>: the binary search of the standard library.\<close>

function bisect_left_loop :: "int list \<Rightarrow> int \<Rightarrow> nat \<Rightarrow> nat \<Rightarrow> nat" where
  "bisect_left_loop a x lo hi =
     (if lo < hi then
        (let mid = (lo + hi) div 2 in
         if a ! mid < x then bisect_left_loop a x (mid + 1) hi
         else bisect_left_loop a x lo mid)
      else lo)"
  by pat_completeness auto
termination
  by (relation "measure (\<lambda>(a, x, lo, hi). hi - lo)") auto

declare bisect_left_loop.simps [simp del]

definition bisect_left :: "int list \<Rightarrow> int \<Rightarrow> nat" where
  "bisect_left a x = bisect_left_loop a x 0 (length a)"

text \<open>\<^verbatim>\<open>list.insert(position, x)\<close> for a position between 0 and the length.\<close>

definition list_insert :: "nat \<Rightarrow> 'a \<Rightarrow> 'a list \<Rightarrow> 'a list" where
  "list_insert position x xs = take position xs @ x # drop position xs"

text \<open>
  \<^verbatim>\<open>assign_tool\<close>. \<^verbatim>\<open>list.remove\<close> deletes the first occurrence and raises
  \<^verbatim>\<open>ValueError\<close> when there is none; the mutations made before a raise stay.
\<close>

definition assign_tool :: "tool \<Rightarrow> int \<Rightarrow> int \<Rightarrow> bool \<Rightarrow> toolchanger \<Rightarrow> outcome" where
  "assign_tool tool number prev_number replace s =
     (if tools s number \<noteq> None \<and> \<not> replace then Raise (DuplicateTools number) s
      else
        then_do
          (if tools s prev_number \<noteq> None then
             (let s1 = s\<lparr>tools := (tools s)(prev_number := None)\<rparr> in
              if prev_number \<notin> set (tool_numbers s1) then Raise ValueError s1
              else
                (let s2 = s1\<lparr>tool_numbers := remove1 prev_number (tool_numbers s1)\<rparr> in
                 if name tool \<notin> set (tool_names s2) then Raise ValueError s2
                 else Ok (s2\<lparr>tool_names := remove1 (name tool) (tool_names s2)\<rparr>)))
           else Ok s)
          (\<lambda>s3.
             let s4 = s3\<lparr>tools := (tools s3)(number \<mapsto> tool)\<rparr>;
                 position = bisect_left (tool_numbers s4) number
             in Ok (s4\<lparr>tool_numbers := list_insert position number (tool_numbers s4),
                       tool_names := list_insert position (name tool) (tool_names s4)\<rparr>)))"

definition lookup_tool :: "toolchanger \<Rightarrow> int \<Rightarrow> tool option" where
  "lookup_tool s number = tools s number"

section \<open>Position and offset arithmetic\<close>

definition XYZ_TO_INDEX :: "char \<rightharpoonup> nat" where
  "XYZ_TO_INDEX =
     [CHR ''x'' \<mapsto> 0, CHR ''X'' \<mapsto> 0, CHR ''y'' \<mapsto> 1, CHR ''Y'' \<mapsto> 1,
      CHR ''z'' \<mapsto> 2, CHR ''Z'' \<mapsto> 2]"

definition INDEX_TO_XYZ :: string where
  "INDEX_TO_XYZ = ''XYZ''"

text \<open>
  The loop of \<^verbatim>\<open>_restore_position_with_tool_offset\<close>, with the dictionary \<open>result\<close> as
  an association list in insertion order. An axis letter outside \<^verbatim>\<open>XYZ_TO_INDEX\<close> is a
  \<^verbatim>\<open>KeyError\<close>, a position that is too short an \<^verbatim>\<open>IndexError\<close>, and \<^verbatim>\<open>v += offset\<close>
  with an offset that is \<^verbatim>\<open>None\<close> a \<^verbatim>\<open>TypeError\<close>.
\<close>

fun restore_position_loop ::
  "real list \<Rightarrow> string \<Rightarrow> tool option \<Rightarrow> (char \<times> real) list \<Rightarrow> error + (char \<times> real) list"
where
  "restore_position_loop position [] tool result = Inr result"
| "restore_position_loop position (i # axis) tool result =
     (case XYZ_TO_INDEX i of
        None \<Rightarrow> Inl (KeyError i)
      | Some index \<Rightarrow>
          if length position \<le> index then Inl IndexError
          else
            (let v = position ! index in
             case tool of
               None \<Rightarrow>
                 restore_position_loop position axis tool
                   (AList.update (INDEX_TO_XYZ ! index) v result)
             | Some t \<Rightarrow>
                 (case (if index = 0 then gcode_x_offset t
                        else if index = 1 then gcode_y_offset t
                        else if index = 2 then gcode_z_offset t
                        else Some 0) of
                    None \<Rightarrow> Inl TypeError
                  | Some offset \<Rightarrow>
                      restore_position_loop position axis tool
                        (AList.update (INDEX_TO_XYZ ! index) (v + offset) result))))"

definition restore_position_with_tool_offset ::
  "real list \<Rightarrow> string \<Rightarrow> tool option \<Rightarrow> error + (char \<times> real) list"
where
  "restore_position_with_tool_offset position axis tool =
     restore_position_loop position axis tool []"

text \<open>\<^verbatim>\<open>_restore_axis\<close>: nothing for an empty axis string, else one move.\<close>

definition restore_axis_move ::
  "real list \<Rightarrow> string \<Rightarrow> tool option \<Rightarrow> toolchanger \<Rightarrow> outcome"
where
  "restore_axis_move position axis tool s =
     (if axis = [] then Ok s
      else
        (case restore_position_with_tool_offset position axis tool of
           Inl e \<Rightarrow> Raise e s
         | Inr pos \<Rightarrow> Ok (emit (G0 pos) s)))"

text \<open>
  \<^verbatim>\<open>_set_tool_gcode_offset\<close>. The command text is assembled axis by axis; the bed mesh
  call negates both offsets, which is a \<^verbatim>\<open>TypeError\<close> when one of them is \<^verbatim>\<open>None\<close>.
\<close>

definition offset_params :: "tool \<Rightarrow> (char \<times> real) list" where
  "offset_params t =
     (case gcode_x_offset t of None \<Rightarrow> [] | Some x \<Rightarrow> [(CHR ''X'', x)]) @
     (case gcode_y_offset t of None \<Rightarrow> [] | Some y \<Rightarrow> [(CHR ''Y'', y)]) @
     (case gcode_z_offset t of None \<Rightarrow> [] | Some z \<Rightarrow> [(CHR ''Z'', z)])"

definition set_tool_gcode_offset :: "tool option \<Rightarrow> toolchanger \<Rightarrow> outcome" where
  "set_tool_gcode_offset tool s =
     (case tool of
        None \<Rightarrow> Ok s
      | Some t \<Rightarrow>
          if gcode_x_offset t = None \<and> gcode_y_offset t = None \<and> gcode_z_offset t = None
          then Ok s
          else
            (let s1 = emit (SET_GCODE_OFFSET (offset_params t)) s in
             if bed_mesh s1 = Some True then
               (case gcode_x_offset t of
                  None \<Rightarrow> Raise TypeError s1
                | Some x \<Rightarrow>
                    (case gcode_y_offset t of
                       None \<Rightarrow> Raise TypeError s1
                     | Some y \<Rightarrow> Ok (emit (BED_MESH_OFFSET (- x) (- y)) s1)))
             else Ok s1))"

section \<open>Hook runner\<close>

text \<open>
  \<^verbatim>\<open>run_gcode\<close>: a fault of the script is raised again as a script running error, and a
  status that differs from the one read before the script as an unexpected status.
\<close>

definition run_gcode ::
  "script_runner \<Rightarrow> string \<Rightarrow> template \<Rightarrow> extra_context option \<Rightarrow> toolchanger \<Rightarrow> outcome"
where
  "run_gcode run hook template extra s =
     (let current_status = status s in
      case run template extra s of
        (Some e, s') \<Rightarrow> Raise (ScriptRunningError e) s'
      | (None, s') \<Rightarrow>
          if current_status \<noteq> status s'
          then Raise (UnexpectedStatus hook (status s') (error_message s')) s'
          else Ok s')"

section \<open>State machine\<close>

definition configure_toolhead_for_tool :: "tool option \<Rightarrow> toolchanger \<Rightarrow> toolchanger" where
  "configure_toolhead_for_tool tool s =
     (let s1 = (case active_tool s of None \<Rightarrow> s | Some a \<Rightarrow> emit (Deactivate (name a)) s);
          s2 = s1\<lparr>active_tool := tool\<rparr>
      in case active_tool s2 of None \<Rightarrow> s2 | Some a \<Rightarrow> emit (Activate (name a)) s2)"

text \<open>
  The steps of \<^verbatim>\<open>initialize\<close> taken when a tool to select is given: activation, the
  after-change hook, the tool's offset.
\<close>

definition initialize_select :: "script_runner \<Rightarrow> tool \<Rightarrow> toolchanger \<Rightarrow> outcome" where
  "initialize_select run t s =
     then_do
       (let s1 = configure_toolhead_for_tool (Some t) s in
        run_gcode run ''after_change_gcode'' (after_change_gcode s1) None s1)
       (set_tool_gcode_offset (Some t))"

definition initialize :: "script_runner \<Rightarrow> tool option \<Rightarrow> toolchanger \<Rightarrow> outcome" where
  "initialize run select s =
     (if status s = STATUS_CHANGING then Raise CannotInitializeWhileChanging s
      else
        (let should_run_initialize = (status s \<noteq> STATUS_INITIALIZING) in
         then_do
           (if should_run_initialize then
              (let s1 = s\<lparr>status := STATUS_INITIALIZING\<rparr> in
               run_gcode run ''initialize_gcode'' (initialize_gcode s1) None s1)
            else Ok s)
           (\<lambda>s2.
              then_do
                (case select of None \<Rightarrow> Ok s2 | Some t \<Rightarrow> initialize_select run t s2)
                (\<lambda>s3.
                   if should_run_initialize then
                     (if status s3 = STATUS_INITIALIZING then
                        (let s4 = s3\<lparr>status := STATUS_READY\<rparr> in
                         Ok (respond_info
                               (Some (Initialized (tc_name s4)
                                        (map_option name (active_tool s4)))) s4))
                      else Raise (FailedToInitialize (tc_name s3) (error_message s3)) s3)
                   else Ok s3))))"

text \<open>
  The tool change proper of \<^verbatim>\<open>select_tool\<close>, from the assignment of
  \<^verbatim>\<open>STATUS_CHANGING\<close> on.
\<close>

definition change_tool :: "script_runner \<Rightarrow> tool option \<Rightarrow> string \<Rightarrow> toolchanger \<Rightarrow> outcome" where
  "change_tool run tool restore_axis s =
     (let s1 = s\<lparr>status := STATUS_CHANGING\<rparr>;
          position = gcode_position s1
      in case restore_position_with_tool_offset position restore_axis tool of
           Inl e \<Rightarrow> Raise e s1
         | Inr rp \<Rightarrow>
             (let extra = Some \<lparr>dropoff_tool = map_option name (active_tool s1),
                               pickup_tool = map_option name tool,
                               restore_position = rp\<rparr>;
                  s2 = run_script_from_command ''SAVE_GCODE_STATE NAME=_toolchange_state'' s1
              in
              then_do (run_gcode run ''before_change_gcode'' (before_change_gcode s2) extra s2)
              (\<lambda>s3.
              then_do
                (let s4 = run_script_from_command ''SET_GCODE_OFFSET X=0.0 Y=0.0 Z=0.0'' s3 in
                 case active_tool s4 of
                   None \<Rightarrow> Ok s4
                 | Some a \<Rightarrow> run_gcode run ''tool.dropoff_gcode'' (dropoff_gcode a) extra s4)
              (\<lambda>s5.
              then_do
                (case tool of
                   None \<Rightarrow> Ok s5
                 | Some t \<Rightarrow>
                     then_do
                       (run_gcode run ''tool.pickup_gcode'' (pickup_gcode t) extra
                          (configure_toolhead_for_tool (Some t) s5))
                       (\<lambda>s6. run_gcode run ''after_change_gcode''
                                (after_change_gcode s6) extra s6))
              (\<lambda>s7.
              then_do (restore_axis_move position restore_axis tool s7)
              (\<lambda>s8.
              then_do
                (let s9 = run_script_from_command
                            ''RESTORE_GCODE_STATE NAME=_toolchange_state MOVE=0'' s8 in
                 case tool of
                   None \<Rightarrow> Ok s9
                 | Some t \<Rightarrow> set_tool_gcode_offset (Some t) s9)
              (\<lambda>s10.
                 Ok (respond_info
                       (case tool of
                          None \<Rightarrow> Some ToolUnselected
                        | Some t \<Rightarrow> Some (SelectedTool (tool_number t) (name t)))
                       (s10\<lparr>status := STATUS_READY\<rparr>)))))))))"

text \<open>
  \<^verbatim>\<open>select_tool\<close>. In the already-selected branch the argument of \<^verbatim>\<open>respond_info\<close> is
  \<^verbatim>\<open>'Tool %s already selected' % tool.name if tool else None\<close>: the conditional binds
  weaker than \<^verbatim>\<open>%\<close>, so the argument is \<^verbatim>\<open>None\<close> when no tool is given.
\<close>

definition select_tool :: "script_runner \<Rightarrow> tool option \<Rightarrow> string \<Rightarrow> toolchanger \<Rightarrow> outcome" where
  "select_tool run tool restore_axis s0 =
     then_do
       (if status s0 = STATUS_UNINITALIZED \<and> initialize_on s0 = INIT_FIRST_USE
        then initialize run None s0 else Ok s0)
       (\<lambda>s.
          if status s \<noteq> STATUS_READY then Raise (CannotSelectTool (status s)) s
          else if active_tool s = tool then
            Ok (respond_info
                  (case tool of None \<Rightarrow> None | Some t \<Rightarrow> Some (AlreadySelected (name t))) s)
          else change_tool run tool restore_axis s)"

section \<open>Commands\<close>

text \<open>The parameters of a command that this module reads.\<close>

record gcmd =
  MESSAGE :: "string option"
  RESTORE_AXIS :: "string option"

definition cmd_SELECT_TOOL_ERROR :: "gcmd \<Rightarrow> toolchanger \<Rightarrow> outcome" where
  "cmd_SELECT_TOOL_ERROR g s =
     (if status s \<noteq> STATUS_CHANGING \<and> status s \<noteq> STATUS_INITIALIZING then
        Ok (respond_info (Some NotSelectingDoingNothing) s)
      else
        Ok (s\<lparr>status := STATUS_ERROR,
              error_message := (case MESSAGE g of None \<Rightarrow> [] | Some m \<Rightarrow> m)\<rparr>))"

definition cmd_UNSELECT_TOOL :: "script_runner \<Rightarrow> gcmd \<Rightarrow> toolchanger \<Rightarrow> outcome" where
  "cmd_UNSELECT_TOOL run g s =
     (case active_tool s of
        None \<Rightarrow> Ok s
      | Some a \<Rightarrow>
          (let restore_axis =
                 (case RESTORE_AXIS g of None \<Rightarrow> t_command_restore_axis a | Some ax \<Rightarrow> ax)
           in select_tool run None restore_axis s))"

section \<open>Example configurations\<close>

text \<open>
  Concrete tools and toolchanger objects on which the properties below are evaluated.
  \<open>fresh\<close> is the object as \<^verbatim>\<open>__init__\<close> leaves it, for a printer at position
  (10, 20, 30) with no bed mesh.
\<close>

definition tool_T1 :: tool where
  "tool_T1 = \<lparr>name = ''T1'', tool_number = 1, gcode_x_offset = Some 1,
     gcode_y_offset = Some 2, gcode_z_offset = Some 0, pickup_gcode = ''pickup1'',
     dropoff_gcode = ''dropoff1'', t_command_restore_axis = ''XYZ''\<rparr>"

definition tool_TX :: tool where
  "tool_TX = \<lparr>name = ''TX'', tool_number = 2, gcode_x_offset = Some 1,
     gcode_y_offset = None, gcode_z_offset = None, pickup_gcode = ''pickup2'',
     dropoff_gcode = ''dropoff2'', t_command_restore_axis = ''XYZ''\<rparr>"

definition fresh :: toolchanger where
  "fresh = \<lparr>tc_name = ''toolchanger'', initialize_on = INIT_FIRST_USE,
     initialize_gcode = ''initialize_gcode'', before_change_gcode = ''before_change_gcode'',
     after_change_gcode = ''after_change_gcode'', status = STATUS_UNINITALIZED,
     active_tool = None, tools = Map.empty, tool_numbers = [], tool_names = [],
     error_message = [], gcode_position = [10, 20, 30, 0], bed_mesh = None,
     emitted = []\<rparr>"

definition two_tools :: toolchanger where
  "two_tools = fresh\<lparr>tools := [1 \<mapsto> tool_T1, 2 \<mapsto> tool_TX], tool_numbers := [1, 2],
     tool_names := [''T1'', ''TX'']\<rparr>"

definition ready_T1 :: toolchanger where
  "ready_T1 = two_tools\<lparr>status := STATUS_READY, active_tool := Some tool_T1\<rparr>"

text \<open>A scripting engine whose hooks do nothing, and one whose hooks all fault.\<close>

definition quiet_run :: script_runner where
  "quiet_run template extra s = (None, s)"

definition faulty_run :: script_runner where
  "faulty_run template extra s = (Some (ScriptFault ''boom''), s)"

definition jam_gcmd :: gcmd where
  "jam_gcmd = \<lparr>MESSAGE = Some ''jam'', RESTORE_AXIS = None\<rparr>"

definition tool_bare :: tool where
  "tool_bare = \<lparr>name = ''bare'', tool_number = 3, gcode_x_offset = None,
     gcode_y_offset = None, gcode_z_offset = None, pickup_gcode = ''pickup3'',
     dropoff_gcode = ''dropoff3'', t_command_restore_axis = ''XYZ''\<rparr>"

text \<open>A scripting engine whose hooks issue \<^verbatim>\<open>SELECT_TOOL_ERROR MESSAGE=jam\<close>.\<close>

definition jam_run :: script_runner where
  "jam_run template extra s = (None, state_of (cmd_SELECT_TOOL_ERROR jam_gcmd s))"


text \<open>
  The frame condition on the scripting engine used for tool selection: a hook that
  completes and leaves the status at changing has not replaced the active tool. The
  commands of this module satisfy it, since \<^verbatim>\<open>initialize\<close>, \<^verbatim>\<open>select_tool\<close> and
  \<^verbatim>\<open>test_tool_selection\<close> all raise while the status is changing.
\<close>

definition hooks_keep_active_tool :: "script_runner \<Rightarrow> bool" where
  "hooks_keep_active_tool run =
     (\<forall>template extra s s'. run template extra s = (None, s') \<and>
        status s = STATUS_CHANGING \<and> status s' = STATUS_CHANGING \<longrightarrow>
        active_tool s' = active_tool s)"

section \<open>Notions used to state the properties\<close>

text \<open>
  The offset that \<^verbatim>\<open>_restore_position_with_tool_offset\<close> adds on the axis with a given
  index (nothing is added without a tool, written as adding 0), and the key under which
  an axis letter is stored in the result.
\<close>

definition tool_offset :: "tool option \<Rightarrow> nat \<Rightarrow> real option" where
  "tool_offset tool index =
     (case tool of
        None \<Rightarrow> Some 0
      | Some t \<Rightarrow>
          if index = 0 then gcode_x_offset t
          else if index = 1 then gcode_y_offset t
          else if index = 2 then gcode_z_offset t
          else Some 0)"

definition axis_key :: "char \<Rightarrow> char" where
  "axis_key i = INDEX_TO_XYZ ! the (XYZ_TO_INDEX i)"

text \<open>
  The registries that arise from an empty one by calls of \<^verbatim>\<open>assign_tool\<close> that return,
  with any steps in between that leave the registry fields alone.
\<close>

inductive registry_reachable :: "toolchanger \<Rightarrow> bool" where
  empty: "tools s = Map.empty \<Longrightarrow> tool_numbers s = [] \<Longrightarrow> tool_names s = [] \<Longrightarrow>
          registry_reachable s"
| assign: "registry_reachable s \<Longrightarrow> assign_tool tool number prev_number replace s = Ok s' \<Longrightarrow>
           registry_reachable s'"
| other: "registry_reachable s \<Longrightarrow> tools s' = tools s \<Longrightarrow>
          tool_numbers s' = tool_numbers s \<Longrightarrow> tool_names s' = tool_names s \<Longrightarrow>
          registry_reachable s'"

section \<open>Sequencing and frame lemmas\<close>

lemma then_do_Ok: "(then_do m f = Ok s') = (\<exists>s1. m = Ok s1 \<and> f s1 = Ok s')"
  by (cases m) auto


lemma status_emit [simp]: "status (emit ev s) = status s"
  by (simp add: emit_def)

lemma active_tool_emit [simp]: "active_tool (emit ev s) = active_tool s"
  by (simp add: emit_def)

lemma run_gcode_Ok_status:
  "run_gcode run hook template extra s = Ok s' \<Longrightarrow> status s' = status s"
  by (auto simp: run_gcode_def split: prod.splits option.splits if_splits)

lemma set_tool_gcode_offset_frame:
  "status (state_of (set_tool_gcode_offset tool s)) = status s \<and>
   active_tool (state_of (set_tool_gcode_offset tool s)) = active_tool s"
  by (auto simp: set_tool_gcode_offset_def Let_def split: option.splits)

lemma configure_toolhead_for_tool_frame:
  "status (configure_toolhead_for_tool tool s) = status s \<and>
   active_tool (configure_toolhead_for_tool tool s) = tool"
  by (auto simp: configure_toolhead_for_tool_def Let_def split: option.splits)


section \<open>The error signal\<close>

text \<open>
  Claim C4. \<^verbatim>\<open>SELECT_TOOL_ERROR\<close> while the status is changing or initializing sets the
  status to error and records the message of the command (the empty text when the command
  has none). In every other status it returns without raising; the object is as before
  except for one response that reports the misuse, so status, error message and active
  tool are unchanged.
\<close>

theorem cmd_SELECT_TOOL_ERROR_effect:
  "(status s = STATUS_CHANGING \<or> status s = STATUS_INITIALIZING \<longrightarrow>
      cmd_SELECT_TOOL_ERROR g s =
        Ok (s\<lparr>status := STATUS_ERROR,
              error_message := (case MESSAGE g of None \<Rightarrow> [] | Some m \<Rightarrow> m)\<rparr>)) \<and>
   (status s \<noteq> STATUS_CHANGING \<and> status s \<noteq> STATUS_INITIALIZING \<longrightarrow>
      raised (cmd_SELECT_TOOL_ERROR g s) = None \<and>
      state_of (cmd_SELECT_TOOL_ERROR g s) =
        s\<lparr>emitted := emitted s @ [RespondInfo (Some NotSelectingDoingNothing)]\<rparr>)"
  by (auto simp: cmd_SELECT_TOOL_ERROR_def respond_info_def emit_def)

theorem cmd_SELECT_TOOL_ERROR_effect_witness:
  "status (state_of (cmd_SELECT_TOOL_ERROR jam_gcmd (fresh\<lparr>status := STATUS_CHANGING\<rparr>)))
     = STATUS_ERROR \<and>
   error_message (state_of (cmd_SELECT_TOOL_ERROR jam_gcmd (fresh\<lparr>status := STATUS_CHANGING\<rparr>)))
     = ''jam'' \<and>
   raised (cmd_SELECT_TOOL_ERROR jam_gcmd (fresh\<lparr>status := STATUS_READY\<rparr>)) = None \<and>
   status (state_of (cmd_SELECT_TOOL_ERROR jam_gcmd (fresh\<lparr>status := STATUS_READY\<rparr>)))
     = STATUS_READY"
  using cmd_SELECT_TOOL_ERROR_effect [of "fresh\<lparr>status := STATUS_CHANGING\<rparr>" jam_gcmd]
    cmd_SELECT_TOOL_ERROR_effect [of "fresh\<lparr>status := STATUS_READY\<rparr>" jam_gcmd]
  by (simp add: fresh_def jam_gcmd_def)

section \<open>Unselecting with no tool\<close>

text \<open>
  Claim C10. With no active tool \<^verbatim>\<open>UNSELECT_TOOL\<close> returns at once: it does not raise and
  the object, with the list of calls made on the collaborators, is exactly as before,
  whatever the scripting engine would do.
\<close>

theorem cmd_UNSELECT_TOOL_no_active_tool:
  "active_tool s = None \<Longrightarrow> cmd_UNSELECT_TOOL run g s = Ok s"
  by (simp add: cmd_UNSELECT_TOOL_def)

theorem cmd_UNSELECT_TOOL_no_active_tool_witness:
  "active_tool fresh = None \<and> cmd_UNSELECT_TOOL faulty_run jam_gcmd fresh = Ok fresh"
  using cmd_UNSELECT_TOOL_no_active_tool [of fresh faulty_run jam_gcmd]
  by (simp add: fresh_def)

section \<open>Restoring the position\<close>

text \<open>
  Where every listed axis is a machine axis within the position and the tool (if any)
  defines an offset on it, the call returns and maps the key of each listed axis to the
  coordinate plus that offset, and the coordinate itself when there is no tool.
\<close>

lemma XYZ_TO_INDEX_Some:
  "XYZ_TO_INDEX i = Some k \<Longrightarrow> k < 3 \<and> XYZ_TO_INDEX (axis_key i) = Some k"
  by (auto simp: XYZ_TO_INDEX_def axis_key_def INDEX_TO_XYZ_def split: if_splits)

lemma restore_position_loop_step:
  "XYZ_TO_INDEX i = Some k \<Longrightarrow> k < length position \<Longrightarrow> tool_offset tool k = Some d \<Longrightarrow>
   restore_position_loop position (i # axis) tool result =
     restore_position_loop position axis tool
       (AList.update (axis_key i) (position ! k + d) result)"
  by (cases tool) (auto simp: tool_offset_def axis_key_def Let_def split: if_splits)

lemma restore_position_loop_total:
  assumes "\<forall>i\<in>set axis. \<exists>k d. XYZ_TO_INDEX i = Some k \<and> k < length position \<and>
             tool_offset tool k = Some d"
  shows "\<exists>r. restore_position_loop position axis tool result = Inr r \<and>
           (\<forall>c. map_of r c =
              (if c \<in> axis_key ` set axis
               then Some (position ! the (XYZ_TO_INDEX c) +
                          the (tool_offset tool (the (XYZ_TO_INDEX c))))
               else map_of result c))"
  using assms
proof (induction axis arbitrary: result)
  case Nil
  then show ?case by simp
next
  case (Cons i axis)
  then obtain k d where k: "XYZ_TO_INDEX i = Some k" "k < length position"
    "tool_offset tool k = Some d" by auto
  from Cons.prems have rest: "\<forall>i\<in>set axis. \<exists>k d. XYZ_TO_INDEX i = Some k \<and>
      k < length position \<and> tool_offset tool k = Some d" by simp
  let ?result = "AList.update (axis_key i) (position ! k + d) result"
  from Cons.IH [OF rest, of ?result] obtain r where
    r: "restore_position_loop position axis tool ?result = Inr r"
    and m: "\<forall>c. map_of r c =
              (if c \<in> axis_key ` set axis
               then Some (position ! the (XYZ_TO_INDEX c) +
                          the (tool_offset tool (the (XYZ_TO_INDEX c))))
               else map_of ?result c)" by blast
  have key: "XYZ_TO_INDEX (axis_key i) = Some k" using k(1) by (simp add: XYZ_TO_INDEX_Some)
  have "restore_position_loop position (i # axis) tool result = Inr r"
    using restore_position_loop_step [OF k] r by simp
  moreover have "\<forall>c. map_of r c =
              (if c \<in> axis_key ` set (i # axis)
               then Some (position ! the (XYZ_TO_INDEX c) +
                          the (tool_offset tool (the (XYZ_TO_INDEX c))))
               else map_of result c)"
    using m key k(3) by (auto simp: update_conv)
  ultimately show ?case by blast
qed

lemma restore_position_defined_offsets:
  assumes "\<forall>i\<in>set axis. \<exists>k d. XYZ_TO_INDEX i = Some k \<and> k < length position \<and>
             tool_offset tool k = Some d"
  shows "\<exists>r. restore_position_with_tool_offset position axis tool = Inr r \<and>
           fst ` set r = axis_key ` set axis \<and>
           (\<forall>i\<in>set axis. \<forall>k. XYZ_TO_INDEX i = Some k \<longrightarrow>
              map_of r (axis_key i) = Some (position ! k + the (tool_offset tool k)))"
proof -
  from restore_position_loop_total [OF assms, of "[]"] obtain r where
    r: "restore_position_with_tool_offset position axis tool = Inr r"
    and m: "\<forall>c. map_of r c =
              (if c \<in> axis_key ` set axis
               then Some (position ! the (XYZ_TO_INDEX c) +
                          the (tool_offset tool (the (XYZ_TO_INDEX c))))
               else None)"
    by (auto simp: restore_position_with_tool_offset_def)
  have "dom (map_of r) = axis_key ` set axis"
    using m by (auto simp: dom_def split: if_splits)
  then have keys: "fst ` set r = axis_key ` set axis" by (simp add: dom_map_of_conv_image_fst)
  have "\<forall>i\<in>set axis. \<forall>k. XYZ_TO_INDEX i = Some k \<longrightarrow>
          map_of r (axis_key i) = Some (position ! k + the (tool_offset tool k))"
    using m by (auto simp: XYZ_TO_INDEX_Some)
  with r keys show ?thesis by blast
qed

text \<open>
  Claim C2 asks for the unmodified coordinate on an axis for which the tool has no offset.
  The code adds the offset field as it is: for a tool without Z offset and the axis Z the
  addition is applied to \<^verbatim>\<open>None\<close> and the call ends in a \<^verbatim>\<open>TypeError\<close>.
\<close>

theorem restore_position_missing_offset_faults:
  "restore_position_with_tool_offset [10, 20, 30, 0] ''Z'' (Some tool_TX) = Inl TypeError"
  by (simp add: restore_position_with_tool_offset_def XYZ_TO_INDEX_def tool_TX_def)

section \<open>Errors of the hook runner\<close>

text \<open>
  Claim C3, as the code has it. When the script completes and the status after it differs
  from the status read before it, \<^verbatim>\<open>run_gcode\<close> raises the unexpected-status error with
  the hook name, the new status and the recorded error message. A fault of the script is
  raised again as a script running error that carries the original fault only: the hook
  name is not part of it.
\<close>

theorem run_gcode_errors:
  "(run template extra s = (None, s') \<and> status s' \<noteq> status s \<longrightarrow>
      run_gcode run hook template extra s =
        Raise (UnexpectedStatus hook (status s') (error_message s')) s') \<and>
   (run template extra s = (Some e, s') \<longrightarrow>
      run_gcode run hook template extra s = Raise (ScriptRunningError e) s')"
  by (auto simp: run_gcode_def)

theorem run_gcode_errors_witness:
  "run_gcode jam_run ''tool.pickup_gcode'' ''pickup1'' None (fresh\<lparr>status := STATUS_CHANGING\<rparr>) =
     Raise (UnexpectedStatus ''tool.pickup_gcode'' STATUS_ERROR ''jam'')
       (fresh\<lparr>status := STATUS_ERROR, error_message := ''jam''\<rparr>) \<and>
   run_gcode faulty_run ''tool.pickup_gcode'' ''pickup1'' None fresh =
     Raise (ScriptRunningError (ScriptFault ''boom'')) fresh"
proof -
  have jam: "jam_run ''pickup1'' None (fresh\<lparr>status := STATUS_CHANGING\<rparr>) =
      (None, fresh\<lparr>status := STATUS_ERROR, error_message := ''jam''\<rparr>)"
    by (simp add: jam_run_def cmd_SELECT_TOOL_ERROR_def jam_gcmd_def fresh_def)
  have boom: "faulty_run ''pickup1'' None fresh = (Some (ScriptFault ''boom''), fresh)"
    by (simp add: faulty_run_def)
  show ?thesis
    using run_gcode_errors [of jam_run "''pickup1''" None "fresh\<lparr>status := STATUS_CHANGING\<rparr>"
          "fresh\<lparr>status := STATUS_ERROR, error_message := ''jam''\<rparr>" "''tool.pickup_gcode''"]
      run_gcode_errors [of faulty_run "''pickup1''" None fresh fresh "''tool.pickup_gcode''"
          "ScriptFault ''boom''"]
      jam boom
    by (simp add: fresh_def)
qed

text \<open>
  The same faulting script run as the pickup hook and as the after-change hook raises one
  and the same error, so the error does not carry the hook name.
\<close>

theorem run_gcode_fault_has_no_hook_name:
  "raised (run_gcode faulty_run ''tool.pickup_gcode'' ''pickup1'' None fresh) =
     Some (ScriptRunningError (ScriptFault ''boom'')) \<and>
   raised (run_gcode faulty_run ''after_change_gcode'' ''pickup1'' None fresh) =
     raised (run_gcode faulty_run ''tool.pickup_gcode'' ''pickup1'' None fresh)"
  by (simp add: run_gcode_def faulty_run_def)

section \<open>Initialization\<close>



section \<open>Registering tools\<close>

text \<open>The binary search returns the partition point of a sorted list.\<close>

lemma bisect_left_loop_bounds:
  "lo \<le> hi \<Longrightarrow> lo \<le> bisect_left_loop a x lo hi \<and> bisect_left_loop a x lo hi \<le> hi"
proof (induction a x lo hi rule: bisect_left_loop.induct)
  case (1 a x lo hi)
  show ?case
  proof (cases "lo < hi")
    case False
    with "1.prems" show ?thesis by (simp add: bisect_left_loop.simps)
  next
    case True
    let ?mid = "(lo + hi) div 2"
    show ?thesis
    proof (cases "a ! ?mid < x")
      case left: True
      have eq: "bisect_left_loop a x lo hi = bisect_left_loop a x (?mid + 1) hi"
        using True left bisect_left_loop.simps [of a x lo hi] by (simp add: Let_def)
      have "?mid + 1 \<le> hi" "lo \<le> ?mid" using True by simp_all
      with "1.IH"(1) [OF True refl left] show ?thesis
        unfolding eq by simp
    next
      case right: False
      have eq: "bisect_left_loop a x lo hi = bisect_left_loop a x lo ?mid"
        using True right bisect_left_loop.simps [of a x lo hi] by (simp add: Let_def)
      have "lo \<le> ?mid" "?mid \<le> hi" using True by simp_all
      with "1.IH"(2) [OF True refl right] show ?thesis
        unfolding eq by simp
    qed
  qed
qed

lemma bisect_left_loop_partition:
  "sorted a \<Longrightarrow> lo \<le> hi \<Longrightarrow> hi \<le> length a \<Longrightarrow>
   (\<forall>j<lo. a ! j < x) \<Longrightarrow> (\<forall>j. hi \<le> j \<and> j < length a \<longrightarrow> x \<le> a ! j) \<Longrightarrow>
   (\<forall>j<bisect_left_loop a x lo hi. a ! j < x) \<and>
   (\<forall>j. bisect_left_loop a x lo hi \<le> j \<and> j < length a \<longrightarrow> x \<le> a ! j)"
proof (induction a x lo hi rule: bisect_left_loop.induct)
  case (1 a x lo hi)
  show ?case
  proof (cases "lo < hi")
    case False
    with "1.prems" have "lo = hi" by simp
    with "1.prems" show ?thesis by (simp add: bisect_left_loop.simps)
  next
    case True
    let ?mid = "(lo + hi) div 2"
    have mid: "lo \<le> ?mid" "?mid < hi" using True by simp_all
    show ?thesis
    proof (cases "a ! ?mid < x")
      case left: True
      have below: "\<forall>j<?mid + 1. a ! j < x"
      proof (intro allI impI)
        fix j assume "j < ?mid + 1"
        then have "j \<le> ?mid" by simp
        moreover have "?mid < length a" using mid "1.prems"(3) by simp
        ultimately have "a ! j \<le> a ! ?mid" using "1.prems"(1) by (simp add: sorted_nth_mono)
        with left show "a ! j < x" by simp
      qed
      have "?mid + 1 \<le> hi" using mid by simp
      have eq: "bisect_left_loop a x lo hi = bisect_left_loop a x (?mid + 1) hi"
        using True left bisect_left_loop.simps [of a x lo hi] by (simp add: Let_def)
      from "1.IH"(1) [OF True refl left "1.prems"(1) \<open>?mid + 1 \<le> hi\<close> "1.prems"(3) below "1.prems"(5)]
      show ?thesis unfolding eq .
    next
      case right: False
      have above: "\<forall>j. ?mid \<le> j \<and> j < length a \<longrightarrow> x \<le> a ! j"
      proof (intro allI impI)
        fix j assume "?mid \<le> j \<and> j < length a"
        then have "a ! ?mid \<le> a ! j" using "1.prems"(1) by (simp add: sorted_nth_mono)
        with right show "x \<le> a ! j" by simp
      qed
      have "?mid \<le> length a" using mid "1.prems"(3) by simp
      have eq: "bisect_left_loop a x lo hi = bisect_left_loop a x lo ?mid"
        using True right bisect_left_loop.simps [of a x lo hi] by (simp add: Let_def)
      from "1.IH"(2) [OF True refl right "1.prems"(1) mid(1) \<open>?mid \<le> length a\<close> "1.prems"(4) above]
      show ?thesis unfolding eq .
    qed
  qed
qed

lemma bisect_left_le_length: "bisect_left a x \<le> length a"
  using bisect_left_loop_bounds [of 0 "length a" a x] by (simp add: bisect_left_def)

lemma sorted_list_insert_bisect_left:
  assumes "sorted a"
  shows "sorted (list_insert (bisect_left a x) x a)"
proof -
  let ?p = "bisect_left a x"
  have part: "(\<forall>j<?p. a ! j < x) \<and> (\<forall>j. ?p \<le> j \<and> j < length a \<longrightarrow> x \<le> a ! j)"
    using bisect_left_loop_partition [OF assms, of 0 "length a" x] by (simp add: bisect_left_def)
  have p: "?p \<le> length a" by (rule bisect_left_le_length)
  have low: "\<forall>y\<in>set (take ?p a). y < x"
  proof
    fix y assume "y \<in> set (take ?p a)"
    then obtain j where "j < length (take ?p a)" "take ?p a ! j = y"
      by (auto simp: in_set_conv_nth)
    with part p show "y < x" by auto
  qed
  have high: "\<forall>y\<in>set (drop ?p a). x \<le> y"
  proof
    fix y assume "y \<in> set (drop ?p a)"
    then obtain j where j: "j < length (drop ?p a)" "drop ?p a ! j = y"
      by (auto simp: in_set_conv_nth)
    then have "?p + j < length a" "a ! (?p + j) = y" using p by simp_all
    with part show "x \<le> y" by (metis le_add1)
  qed
  have "sorted (take ?p a)" "sorted (drop ?p a)"
    using assms by (simp_all add: sorted_wrt_take sorted_wrt_drop)
  moreover have "\<forall>y\<in>set (take ?p a). \<forall>z\<in>set (drop ?p a). y \<le> z"
    using low high by fastforce
  ultimately show ?thesis
    using low high by (auto simp: list_insert_def sorted_append less_imp_le)
qed

lemma length_list_insert: "length (list_insert p x xs) = Suc (length xs)"
  by (simp add: list_insert_def)

lemma length_remove1_mem: "x \<in> set xs \<Longrightarrow> Suc (length (remove1 x xs)) = length xs"
  by (induction xs) auto

lemma assign_tool_raises_duplicate:
  "(raised (assign_tool tool number prev_number replace s) = Some (DuplicateTools number)) =
   (tools s number \<noteq> None \<and> \<not> replace)"
  by (auto simp: assign_tool_def Let_def)

lemma assign_tool_Ok_shape:
  assumes "assign_tool tool number prev_number replace s = Ok s'"
  obtains ns nms m where
    "s' = s\<lparr>tools := m(number \<mapsto> tool),
              tool_numbers := list_insert (bisect_left ns number) number ns,
              tool_names := list_insert (bisect_left ns number) (name tool) nms\<rparr>"
    "tools s prev_number = None \<longrightarrow> ns = tool_numbers s \<and> nms = tool_names s"
    "tools s prev_number \<noteq> None \<longrightarrow>
       prev_number \<in> set (tool_numbers s) \<and> name tool \<in> set (tool_names s) \<and>
       ns = remove1 prev_number (tool_numbers s) \<and> nms = remove1 (name tool) (tool_names s)"
  using assms
  by (auto simp: assign_tool_def Let_def split: if_splits)

lemma raised_None: "raised r = None \<Longrightarrow> r = Ok (state_of r)"
  by (cases r) simp_all

text \<open>
  A call that returns keeps the number sequence sorted and the two sequences equally long,
  so every registry built from the empty one by returning calls has both properties.
\<close>

lemma assign_tool_Ok_sorted:
  assumes inv: "sorted (tool_numbers s)" "length (tool_numbers s) = length (tool_names s)"
    and ok: "assign_tool tool number prev_number replace s = Ok s'"
  shows "lookup_tool s' number = Some tool \<and> sorted (tool_numbers s') \<and>
         length (tool_numbers s') = length (tool_names s')"
proof -
  from ok obtain ns nms m where
    s': "s' = s\<lparr>tools := m(number \<mapsto> tool),
              tool_numbers := list_insert (bisect_left ns number) number ns,
              tool_names := list_insert (bisect_left ns number) (name tool) nms\<rparr>"
    and keep: "tools s prev_number = None \<longrightarrow> ns = tool_numbers s \<and> nms = tool_names s"
    and drop: "tools s prev_number \<noteq> None \<longrightarrow>
       prev_number \<in> set (tool_numbers s) \<and> name tool \<in> set (tool_names s) \<and>
       ns = remove1 prev_number (tool_numbers s) \<and> nms = remove1 (name tool) (tool_names s)"
    by (rule assign_tool_Ok_shape)
  have ns: "sorted ns"
    using inv(1) keep drop by (cases "tools s prev_number") (auto simp: sorted_remove1)
  have len: "length ns = length nms"
  proof (cases "tools s prev_number")
    case None
    with keep inv(2) show ?thesis by simp
  next
    case (Some t)
    with drop have "Suc (length ns) = length (tool_numbers s)"
      "Suc (length nms) = length (tool_names s)"
      by (simp_all add: length_remove1_mem)
    with inv(2) show ?thesis by simp
  qed
  show ?thesis
    using ns len by (simp add: s' lookup_tool_def sorted_list_insert_bisect_left length_list_insert)
qed

text \<open>
  The number and the name of the tool are inserted at one and the same position of the
  two sequences, as they are after the previous entry has been removed.
\<close>

lemma zip_list_insert:
  "length xs = length ys \<Longrightarrow>
   zip (list_insert p x xs) (list_insert p y ys) = list_insert p (x, y) (zip xs ys)"
  by (simp add: list_insert_def take_zip drop_zip)

lemma assign_tool_Ok_entry:
  assumes inv: "length (tool_numbers s) = length (tool_names s)"
    and ok: "assign_tool tool number prev_number replace s = Ok s'"
  shows "(number, name tool) \<in> set (zip (tool_numbers s') (tool_names s')) \<and>
         (\<exists>p \<le> length (if tools s prev_number = None then tool_numbers s
                          else remove1 prev_number (tool_numbers s)).
            tool_numbers s' =
              list_insert p number
                (if tools s prev_number = None then tool_numbers s
                 else remove1 prev_number (tool_numbers s)) \<and>
            tool_names s' =
              list_insert p (name tool)
                (if tools s prev_number = None then tool_names s
                 else remove1 (name tool) (tool_names s)))"
proof -
  from ok obtain ns nms m where
    s': "s' = s\<lparr>tools := m(number \<mapsto> tool),
              tool_numbers := list_insert (bisect_left ns number) number ns,
              tool_names := list_insert (bisect_left ns number) (name tool) nms\<rparr>"
    and keep: "tools s prev_number = None \<longrightarrow> ns = tool_numbers s \<and> nms = tool_names s"
    and drop: "tools s prev_number \<noteq> None \<longrightarrow>
       prev_number \<in> set (tool_numbers s) \<and> name tool \<in> set (tool_names s) \<and>
       ns = remove1 prev_number (tool_numbers s) \<and> nms = remove1 (name tool) (tool_names s)"
    by (rule assign_tool_Ok_shape)
  have ns: "ns = (if tools s prev_number = None then tool_numbers s
                  else remove1 prev_number (tool_numbers s))"
    and nms: "nms = (if tools s prev_number = None then tool_names s
                     else remove1 (name tool) (tool_names s))"
    using keep drop by auto
  have len: "length ns = length nms"
  proof (cases "tools s prev_number")
    case None
    with keep inv show ?thesis by simp
  next
    case (Some t)
    with drop have "Suc (length ns) = length (tool_numbers s)"
      "Suc (length nms) = length (tool_names s)"
      by (simp_all add: length_remove1_mem)
    with inv show ?thesis by simp
  qed
  have p: "bisect_left ns number \<le> length ns" by (rule bisect_left_le_length)
  have "zip (tool_numbers s') (tool_names s') =
          list_insert (bisect_left ns number) (number, name tool) (zip ns nms)"
    by (simp add: s' zip_list_insert [OF len])
  then have mem: "(number, name tool) \<in> set (zip (tool_numbers s') (tool_names s'))"
    by (simp add: list_insert_def)
  have "tool_numbers s' = list_insert (bisect_left ns number) number ns"
    "tool_names s' = list_insert (bisect_left ns number) (name tool) nms"
    by (simp_all add: s')
  with p mem show ?thesis unfolding ns [symmetric] nms [symmetric] by blast
qed

lemma registry_reachable_sorted:
  "registry_reachable s \<Longrightarrow>
   sorted (tool_numbers s) \<and> length (tool_numbers s) = length (tool_names s)"
proof (induction rule: registry_reachable.induct)
  case (empty s)
  then show ?case by simp
next
  case (assign s tool number prev_number replace s')
  then show ?case using assign_tool_Ok_sorted by blast
next
  case (other s s')
  then show ?case by simp
qed

text \<open>
  Claim C5. For a registry whose number sequence is sorted and as long as the name
  sequence, \<^verbatim>\<open>assign_tool\<close> raises the duplicate error exactly when the number is
  registered and \<open>replace\<close> is false. When the call returns, looking the number up gives
  the assigned tool; the number sequence is sorted ascending and as long as the name
  sequence; and the number and the tool's name are listed at the same index: the two
  sequences are the previous ones (less the first entry for the previous number and for
  the tool's name, when the previous number was registered) with the number and the name
  inserted at one common position.
\<close>

theorem assign_tool_registers:
  "sorted (tool_numbers s) \<Longrightarrow> length (tool_numbers s) = length (tool_names s) \<Longrightarrow>
   ((raised (assign_tool tool number prev_number replace s) = Some (DuplicateTools number)) =
      (tools s number \<noteq> None \<and> \<not> replace)) \<and>
   (raised (assign_tool tool number prev_number replace s) = None \<longrightarrow>
      lookup_tool (state_of (assign_tool tool number prev_number replace s)) number = Some tool \<and>
      sorted (tool_numbers (state_of (assign_tool tool number prev_number replace s))) \<and>
      length (tool_numbers (state_of (assign_tool tool number prev_number replace s))) =
        length (tool_names (state_of (assign_tool tool number prev_number replace s))) \<and>
      (number, name tool) \<in>
        set (zip (tool_numbers (state_of (assign_tool tool number prev_number replace s)))
                 (tool_names (state_of (assign_tool tool number prev_number replace s)))) \<and>
      (\<exists>p \<le> length (if tools s prev_number = None then tool_numbers s
                       else remove1 prev_number (tool_numbers s)).
         tool_numbers (state_of (assign_tool tool number prev_number replace s)) =
           list_insert p number
             (if tools s prev_number = None then tool_numbers s
              else remove1 prev_number (tool_numbers s)) \<and>
         tool_names (state_of (assign_tool tool number prev_number replace s)) =
           list_insert p (name tool)
             (if tools s prev_number = None then tool_names s
              else remove1 (name tool) (tool_names s))))"
proof (intro conjI impI)
  show "(raised (assign_tool tool number prev_number replace s) = Some (DuplicateTools number)) =
      (tools s number \<noteq> None \<and> \<not> replace)"
    by (rule assign_tool_raises_duplicate)
next
  let ?s' = "state_of (assign_tool tool number prev_number replace s)"
  assume inv: "sorted (tool_numbers s)" "length (tool_numbers s) = length (tool_names s)"
    and "raised (assign_tool tool number prev_number replace s) = None"
  then have ok: "assign_tool tool number prev_number replace s = Ok ?s'"
    by (simp add: raised_None)
  from assign_tool_Ok_sorted [OF inv ok]
  show "lookup_tool ?s' number = Some tool" "sorted (tool_numbers ?s')"
    "length (tool_numbers ?s') = length (tool_names ?s')" by simp_all
  from assign_tool_Ok_entry [OF inv(2) ok]
  show "(number, name tool) \<in> set (zip (tool_numbers ?s') (tool_names ?s'))"
    "\<exists>p \<le> length (if tools s prev_number = None then tool_numbers s
                       else remove1 prev_number (tool_numbers s)).
         tool_numbers ?s' =
           list_insert p number
             (if tools s prev_number = None then tool_numbers s
              else remove1 prev_number (tool_numbers s)) \<and>
         tool_names ?s' =
           list_insert p (name tool)
             (if tools s prev_number = None then tool_names s
              else remove1 (name tool) (tool_names s))" by simp_all
qed

theorem assign_tool_registers_witness:
  "raised (assign_tool tool_bare 3 (- 1) False two_tools) = None \<and>
   lookup_tool (state_of (assign_tool tool_bare 3 (- 1) False two_tools)) 3 = Some tool_bare \<and>
   sorted (tool_numbers (state_of (assign_tool tool_bare 3 (- 1) False two_tools))) \<and>
   length (tool_numbers (state_of (assign_tool tool_bare 3 (- 1) False two_tools))) =
     length (tool_names (state_of (assign_tool tool_bare 3 (- 1) False two_tools))) \<and>
   (3, ''bare'') \<in>
     set (zip (tool_numbers (state_of (assign_tool tool_bare 3 (- 1) False two_tools)))
              (tool_names (state_of (assign_tool tool_bare 3 (- 1) False two_tools)))) \<and>
   tool_numbers (state_of (assign_tool tool_bare 3 (- 1) False two_tools)) = [1, 2, 3] \<and>
   tool_names (state_of (assign_tool tool_bare 3 (- 1) False two_tools)) =
     [''T1'', ''TX'', ''bare''] \<and>
   raised (assign_tool tool_bare 2 (- 1) False two_tools) = Some (DuplicateTools 2)"
proof -
  have inv: "sorted (tool_numbers two_tools)"
    "length (tool_numbers two_tools) = length (tool_names two_tools)"
    by (simp_all add: two_tools_def fresh_def)
  have ok: "raised (assign_tool tool_bare 3 (- 1) False two_tools) = None"
    by (simp add: assign_tool_def two_tools_def fresh_def Let_def)
  have dup: "tools two_tools 2 \<noteq> None" by (simp add: two_tools_def fresh_def)
  have "bisect_left [1, 2] 3 = 2" by code_simp
  then have val: "tool_numbers (state_of (assign_tool tool_bare 3 (- 1) False two_tools)) = [1, 2, 3]"
    "tool_names (state_of (assign_tool tool_bare 3 (- 1) False two_tools)) =
       [''T1'', ''TX'', ''bare'']"
    by (simp_all add: assign_tool_def two_tools_def fresh_def Let_def list_insert_def
        tool_bare_def)
  have nm: "name tool_bare = ''bare''" by (simp add: tool_bare_def)
  from assign_tool_registers [OF inv, of tool_bare 3 "- 1" False]
    assign_tool_registers [OF inv, of tool_bare 2 "- 1" False] ok dup val nm
  show ?thesis by simp
qed

text \<open>
  Claim C6 asks that re-registering a tool under a new number with \<open>replace\<close> leaves no
  duplicate entries and keeps the sequences in correspondence with the mapping. With tools
  1 and 2 registered, moving tool 1 to number 2 with \<open>replace\<close> returns normally, and
  afterwards the number 2 is listed twice and the name of the replaced tool is still
  listed although the mapping no longer holds that tool.
\<close>

theorem assign_tool_replace_leaves_duplicate:
  "raised (assign_tool tool_T1 2 1 True two_tools) = None \<and>
   tool_numbers (state_of (assign_tool tool_T1 2 1 True two_tools)) = [2, 2] \<and>
   tool_names (state_of (assign_tool tool_T1 2 1 True two_tools)) = [''T1'', ''TX''] \<and>
   lookup_tool (state_of (assign_tool tool_T1 2 1 True two_tools)) 2 = Some tool_T1 \<and>
   lookup_tool (state_of (assign_tool tool_T1 2 1 True two_tools)) 1 = None"
proof -
  have "bisect_left [2] 2 = 0" by code_simp
  then show ?thesis
    by (simp add: assign_tool_def two_tools_def fresh_def tool_T1_def tool_TX_def Let_def
        list_insert_def lookup_tool_def)
qed

section \<open>Tool offset\<close>





section \<open>Tool selection\<close>

lemma restore_axis_move_frame:
  "restore_axis_move position axis tool s = Ok s' \<Longrightarrow>
   status s' = status s \<and> active_tool s' = active_tool s"
  by (auto simp: restore_axis_move_def split: if_splits sum.splits)

lemma run_gcode_Ok_run:
  "run_gcode run hook template extra s = Ok s' \<Longrightarrow>
   run template extra s = (None, s') \<and> status s' = status s"
  by (auto simp: run_gcode_def split: prod.splits option.splits if_splits)

lemma run_gcode_Ok_active_tool:
  assumes "hooks_keep_active_tool run" "run_gcode run hook template extra s = Ok s'"
    "status s = STATUS_CHANGING"
  shows "active_tool s' = active_tool s \<and> status s' = STATUS_CHANGING"
  using assms run_gcode_Ok_run [OF assms(2)]
  unfolding hooks_keep_active_tool_def by metis

lemma change_tool_Some:
  assumes frame: "hooks_keep_active_tool run"
    and ok: "change_tool run (Some t) restore_axis s = Ok s'"
  shows "status s' = STATUS_READY \<and> active_tool s' = Some t"
proof -
  let ?s1 = "s\<lparr>status := STATUS_CHANGING\<rparr>"
  from ok obtain rp where
    rp: "restore_position_with_tool_offset (gcode_position s) restore_axis (Some t) = Inr rp"
    by (auto simp: change_tool_def Let_def split: sum.splits)
  let ?extra = "Some \<lparr>dropoff_tool = map_option name (active_tool s),
                      pickup_tool = Some (name t), restore_position = rp\<rparr>"
  let ?s2 = "run_script_from_command ''SAVE_GCODE_STATE NAME=_toolchange_state'' ?s1"
  from ok rp obtain s3 s5 s6 s7 s8 s10 where
    before: "run_gcode run ''before_change_gcode'' (before_change_gcode ?s2) ?extra ?s2 = Ok s3"
    and dropoff: "(case active_tool (run_script_from_command
                      ''SET_GCODE_OFFSET X=0.0 Y=0.0 Z=0.0'' s3) of
                    None \<Rightarrow> Ok (run_script_from_command
                      ''SET_GCODE_OFFSET X=0.0 Y=0.0 Z=0.0'' s3)
                  | Some a \<Rightarrow> run_gcode run ''tool.dropoff_gcode'' (dropoff_gcode a) ?extra
                      (run_script_from_command ''SET_GCODE_OFFSET X=0.0 Y=0.0 Z=0.0'' s3)) = Ok s5"
    and pickup: "run_gcode run ''tool.pickup_gcode'' (pickup_gcode t) ?extra
               (configure_toolhead_for_tool (Some t) s5) = Ok s6"
    and after: "run_gcode run ''after_change_gcode'' (after_change_gcode s6) ?extra s6 = Ok s7"
    and move: "restore_axis_move (gcode_position s) restore_axis (Some t) s7 = Ok s8"
    and off: "set_tool_gcode_offset (Some t)
                (run_script_from_command
                   ''RESTORE_GCODE_STATE NAME=_toolchange_state MOVE=0'' s8) = Ok s10"
    and s': "s' = respond_info (Some (SelectedTool (tool_number t) (name t)))
                    (s10\<lparr>status := STATUS_READY\<rparr>)"
    by (auto simp: change_tool_def Let_def then_do_Ok)
  have "status ?s2 = STATUS_CHANGING" by (simp add: run_script_from_command_def)
  with run_gcode_Ok_status [OF before] have s3: "status s3 = STATUS_CHANGING" by simp
  have s5: "status s5 = STATUS_CHANGING"
    using dropoff s3
    by (auto simp: run_script_from_command_def split: option.splits dest: run_gcode_Ok_status)
  have c: "status (configure_toolhead_for_tool (Some t) s5) = STATUS_CHANGING"
    "active_tool (configure_toolhead_for_tool (Some t) s5) = Some t"
    using s5 by (simp_all add: configure_toolhead_for_tool_frame)
  from run_gcode_Ok_active_tool [OF frame pickup c(1)] c(2)
  have s6: "active_tool s6 = Some t" "status s6 = STATUS_CHANGING" by simp_all
  from run_gcode_Ok_active_tool [OF frame after s6(2)] s6(1)
  have s7: "active_tool s7 = Some t" by simp
  from restore_axis_move_frame [OF move] s7 have s8: "active_tool s8 = Some t" by simp
  from off set_tool_gcode_offset_frame [of "Some t"
      "run_script_from_command ''RESTORE_GCODE_STATE NAME=_toolchange_state MOVE=0'' s8"] s8
  have "active_tool s10 = Some t" by (simp add: run_script_from_command_def)
  then show ?thesis by (simp add: s' respond_info_def)
qed

lemma select_tool_Some:
  assumes frame: "hooks_keep_active_tool run"
    and ok: "select_tool run (Some t) restore_axis s = Ok s'"
  shows "status s' = STATUS_READY \<and> active_tool s' = Some t"
proof -
  from ok obtain sa where
    sa: "status sa = STATUS_READY"
    and rest: "(if active_tool sa = Some t
                then Ok (respond_info (Some (AlreadySelected (name t))) sa)
                else change_tool run (Some t) restore_axis sa) = Ok s'"
    by (auto simp: select_tool_def then_do_Ok split: if_splits)
  show ?thesis
  proof (cases "active_tool sa = Some t")
    case True
    with rest sa show ?thesis by (auto simp: respond_info_def)
  next
    case False
    with rest have "change_tool run (Some t) restore_axis sa = Ok s'" by simp
    from change_tool_Some [OF frame this] show ?thesis .
  qed
qed


text \<open>
  When the requested tool is the active one and the status is ready, \<^verbatim>\<open>select_tool\<close>
  only responds: no hook is run and nothing else of the object changes.
\<close>

lemma select_tool_already_selected:
  "status s = STATUS_READY \<Longrightarrow> active_tool s = tool \<Longrightarrow>
   select_tool run tool restore_axis s =
     Ok (respond_info
           (case tool of None \<Rightarrow> None | Some t \<Rightarrow> Some (AlreadySelected (name t))) s)"
  by (simp add: select_tool_def)


text \<open>
  Claim C1 asks that an unselect leaves no active tool. With tool T1 active and hooks
  that do nothing, unselecting returns normally with status ready and reports that the
  tool is unselected, but T1 is still the active tool and was never deactivated: the
  activation step is only taken when a tool is given.
\<close>

theorem select_tool_unselect_keeps_active_tool:
  "raised (select_tool quiet_run None ''XY'' ready_T1) = None \<and>
   status (state_of (select_tool quiet_run None ''XY'' ready_T1)) = STATUS_READY \<and>
   active_tool (state_of (select_tool quiet_run None ''XY'' ready_T1)) = Some tool_T1 \<and>
   emitted (state_of (select_tool quiet_run None ''XY'' ready_T1)) =
     [RunScript ''SAVE_GCODE_STATE NAME=_toolchange_state'',
      RunScript ''SET_GCODE_OFFSET X=0.0 Y=0.0 Z=0.0'',
      G0 [(CHR ''X'', 10), (CHR ''Y'', 20)],
      RunScript ''RESTORE_GCODE_STATE NAME=_toolchange_state MOVE=0'',
      RespondInfo (Some ToolUnselected)]"
  by (simp add: select_tool_def change_tool_def ready_T1_def two_tools_def fresh_def tool_T1_def
      quiet_run_def run_gcode_def restore_position_with_tool_offset_def XYZ_TO_INDEX_def
      INDEX_TO_XYZ_def restore_axis_move_def run_script_from_command_def respond_info_def
      emit_def Let_def)

end
